theory Spec2Isabelle
  imports Main "HOL-Library.Word"
begin

section \<open>The Thorchain client of xchainpy\<close>

text \<open>
  The class \<open>Client\<close> of \<open>xchainpy_thorchain/client.py\<close> as a record of its
  attributes, each method as a function from the client to an outcome and the client after
  the call. A Python exception leaves the assignments made before it in place, so a
  method that raises still returns the client it leaves behind.
\<close>

subsection \<open>Values and errors\<close>

type_synonym bytes = "8 word list"

text \<open>
  The exceptions the client raises itself are \<open>Exception(message)\<close>; a failed dict lookup
  is a \<open>KeyError\<close> of the key, a name that resolves nowhere a \<open>NameError\<close> of the name.
\<close>

datatype error = Exception string | KeyError string | NameError string

text \<open>The configuration \<open>CosmosSDKClient\<close> is constructed with.\<close>

record thor_client =
  server :: string
  prefix :: string
  derive_path :: string
  chain_id :: string

text \<open>
  \<open>client_url\<close> holds either the string handed in or the dict of
  \<open>get_default_client_url\<close>.
\<close>

datatype url_value = UrlStr string | UrlDict "(string \<times> (string \<times> string) list) list"

record client =
  phrase :: string
  address :: string
  network :: string
  private_key :: "bytes option"
  client_url :: url_value
  explorer_url :: string
  thor_client :: thor_client

text \<open>One entry of the node's balance reply, and one entry of the list \<open>get_balance\<close> returns.\<close>

record coin =
  denom :: string
  amount :: string

record balance =
  asset :: string
  amount :: string

record response =
  result :: "coin list"

text \<open>
  \<open>xchainpy_crypto.validate_phrase\<close> and the methods of \<open>CosmosSDKClient\<close> are not
  among the sources at hand; the client is modelled over them. The methods of the node
  client may raise, and get the configuration of the node client they are called on.
\<close>

record env =
  validate_phrase :: "string \<Rightarrow> bool"
  seed_to_privkey :: "thor_client \<Rightarrow> string \<Rightarrow> error + bytes"
  privkey_to_address :: "thor_client \<Rightarrow> bytes \<Rightarrow> error + string"
  node_get_balance :: "thor_client \<Rightarrow> string \<Rightarrow> error + response"

text \<open>
  The class attribute \<open>derive_path\<close> of \<open>Client\<close>. No method reads it: the path
  the node client gets is the literal in \<open>get_new_thor_client\<close>.
\<close>

definition client_derive_path :: string where
  "client_derive_path = ''m/44'/118'/0'/0/0''"

subsection \<open>Truth values of Python\<close>

text \<open>\<open>not x\<close> for an optional string: \<open>None\<close> and the empty string are false.\<close>

fun not_str :: "string option \<Rightarrow> bool" where
  "not_str None = True"
| "not_str (Some s) = (s = [])"

text \<open>\<open>not x\<close> for optional bytes: \<open>None\<close> and \<open>b''\<close> are false.\<close>

fun not_bytes :: "bytes option \<Rightarrow> bool" where
  "not_bytes None = True"
| "not_bytes (Some b) = (b = [])"

subsection \<open>Getters\<close>

definition get_network :: "client \<Rightarrow> string" where
  "get_network c = network c"

definition get_default_client_url :: "(string \<times> (string \<times> string) list) list" where
  "get_default_client_url =
     [(''testnet'', [(''node'', ''https://testnet.thornode.thorchain.info''),
                     (''rpc'', ''https://testnet.rpc.thorchain.info'')]),
      (''mainnet'', [(''node'', ''http://138.68.125.107:1317''),
                     (''rpc'', ''http://138.68.125.107:26657'')])]"

definition get_default_explorer_url :: "client \<Rightarrow> string" where
  "get_default_explorer_url c =
     (if network c = ''testnet'' then ''https://testnet.thorchain.net'' else ''https://thorchain.net'')"

text \<open>
  The parameter is spelt \<open>netowrk\<close>; the branch taken when it is given reads the name
  \<open>network\<close>, which is neither a local nor a global of the module.
\<close>

definition get_prefix :: "client \<Rightarrow> string option \<Rightarrow> error + string" where
  "get_prefix c netowrk =
     (if \<not> not_str netowrk then Inl (NameError ''network'')
      else Inr (if network c = ''testnet'' then ''tthor'' else ''thor''))"

definition get_chain_id :: "client \<Rightarrow> string" where
  "get_chain_id c = ''thorchain''"

text \<open>Subscription of a dict by a key: \<open>KeyError\<close> when the key is absent.\<close>

definition getitem :: "(string \<times> 'v) list \<Rightarrow> string \<Rightarrow> error + 'v" where
  "getitem d k = (case map_of d k of None \<Rightarrow> Inl (KeyError k) | Some v \<Rightarrow> Inr v)"

definition get_new_thor_client :: "client \<Rightarrow> error + thor_client" where
  "get_new_thor_client c =
     (let network = get_network c in
      case getitem get_default_client_url network of
        Inl e \<Rightarrow> Inl e
      | Inr urls \<Rightarrow>
          (case getitem urls ''node'' of
             Inl e \<Rightarrow> Inl e
           | Inr node \<Rightarrow>
               (case get_prefix c None of
                  Inl e \<Rightarrow> Inl e
                | Inr p \<Rightarrow>
                    Inr \<lparr>server = node, prefix = p,
                         derive_path = ''m/44'/931'/0'/0/0'',
                         chain_id = get_chain_id c\<rparr>)))"

subsection \<open>Methods that assign\<close>

definition purge_client :: "client \<Rightarrow> client" where
  "purge_client c = c\<lparr>phrase := [], address := [], private_key := None\<rparr>"

definition set_network :: "client \<Rightarrow> string \<Rightarrow> (error + unit) \<times> client" where
  "set_network c nw =
     (if nw = [] then (Inl (Exception ''Network must be provided''), c)
      else
        (let c1 = c\<lparr>network := nw\<rparr> in
         case get_new_thor_client c1 of
           Inl e \<Rightarrow> (Inl e, c1)
         | Inr tc \<Rightarrow> (Inr (), c1\<lparr>thor_client := tc, address := []\<rparr>)))"

definition set_client_url :: "client \<Rightarrow> string \<Rightarrow> (error + unit) \<times> client" where
  "set_client_url c url =
     (let c1 = c\<lparr>client_url := UrlStr url\<rparr> in
      case get_new_thor_client c1 of
        Inl e \<Rightarrow> (Inl e, c1)
      | Inr tc \<Rightarrow> (Inr (), c1\<lparr>thor_client := tc\<rparr>))"

definition get_private_key :: "env \<Rightarrow> client \<Rightarrow> (error + bytes option) \<times> client" where
  "get_private_key ev c =
     (if not_bytes (private_key c) then
        (if phrase c = [] then (Inl (Exception ''Phrase not set''), c)
         else
           (case seed_to_privkey ev (thor_client c) (phrase c) of
              Inl e \<Rightarrow> (Inl e, c)
            | Inr k \<Rightarrow> (Inr (Some k), c\<lparr>private_key := Some k\<rparr>)))
      else (Inr (private_key c), c))"

text \<open>
  \<open>get_private_key\<close> returns the attribute, which is bytes whenever the call returns
  from the branch that derives; the argument of \<open>privkey_to_address\<close> is that value.
\<close>

definition key_bytes :: "bytes option \<Rightarrow> bytes" where
  "key_bytes k = (case k of None \<Rightarrow> [] | Some b \<Rightarrow> b)"

definition get_address :: "env \<Rightarrow> client \<Rightarrow> (error + string) \<times> client" where
  "get_address ev c =
     (if address c = [] then
        (case get_private_key ev c of
           (Inl e, c1) \<Rightarrow> (Inl e, c1)
         | (Inr k, c1) \<Rightarrow>
             (case privkey_to_address ev (thor_client c1) (key_bytes k) of
                Inl e \<Rightarrow> (Inl e, c1)
              | Inr a \<Rightarrow>
                  (let c2 = c1\<lparr>address := a\<rparr> in
                   if a = [] then
                     (Inl (Exception ''Address has to be set. Or set a phrase by calling `setPhrase` before to use an address of an imported key.''), c2)
                   else (Inr a, c2))))
      else (Inr (address c), c))"

definition set_phrase :: "env \<Rightarrow> client \<Rightarrow> string \<Rightarrow> (error + string) \<times> client" where
  "set_phrase ev c p =
     (if phrase c = [] \<or> phrase c \<noteq> p then
        (if \<not> validate_phrase ev p then (Inl (Exception ''invalid phrase''), c)
         else get_address ev (c\<lparr>phrase := p, private_key := None, address := []\<rparr>))
      else get_address ev c)"

text \<open>
  The constructor. The attribute \<open>thor_client\<close> does not exist before its assignment
  and nothing reads it until then (\<open>get_new_thor_client\<close> reads the network only), so
  the record starts with an empty configuration in its place. A constructor that raises
  gives no client.
\<close>

definition unset_thor_client :: thor_client where
  "unset_thor_client = \<lparr>server = [], prefix = [], derive_path = [], chain_id = []\<rparr>"

text \<open>The assignments to \<open>network\<close>, \<open>client_url\<close> and \<open>explorer_url\<close> that open it.\<close>

definition init_urls :: "string \<Rightarrow> string option \<Rightarrow> string option \<Rightarrow> client" where
  "init_urls nw cu eu =
     (let c0 = \<lparr>phrase = [], address = [], network = nw, private_key = None,
                client_url = (case cu of None \<Rightarrow> UrlDict get_default_client_url
                              | Some u \<Rightarrow> if u = [] then UrlDict get_default_client_url else UrlStr u),
                explorer_url = [], thor_client = unset_thor_client\<rparr>
      in c0\<lparr>explorer_url := (case eu of None \<Rightarrow> get_default_explorer_url c0
                                | Some u \<Rightarrow> if u = [] then get_default_explorer_url c0 else u)\<rparr>)"

definition init :: "env \<Rightarrow> string \<Rightarrow> string \<Rightarrow> string option \<Rightarrow> string option \<Rightarrow> error + client" where
  "init ev ph nw cu eu =
     (let c1 = init_urls nw cu eu
      in case get_new_thor_client c1 of
           Inl e \<Rightarrow> Inl e
         | Inr tc \<Rightarrow>
             (let c2 = c1\<lparr>thor_client := tc\<rparr> in
              if ph \<noteq> [] then
                (case set_phrase ev c2 ph of
                   (Inl e, c3) \<Rightarrow> Inl e
                 | (Inr a, c3) \<Rightarrow> Inr c3)
              else Inr c2))"

subsection \<open>Balances\<close>

text \<open>The loop of \<open>get_balance\<close> over the reply, appending to \<open>balances\<close>.\<close>

fun balances_loop :: "string option \<Rightarrow> coin list \<Rightarrow> balance list \<Rightarrow> balance list" where
  "balances_loop ast [] balances = balances"
| "balances_loop ast (b # rest) balances =
     (if not_str ast \<or> Some (denom b) = ast
      then balances_loop ast rest (balances @ [\<lparr>asset = denom b, amount = coin.amount b\<rparr>])
      else balances_loop ast rest balances)"

text \<open>
  \<open>get_balance\<close> returns its outcome, the client after the call and the addresses it
  has asked the node about, in order: the query is the one effect outside the client.
\<close>

definition get_balance ::
  "env \<Rightarrow> client \<Rightarrow> string option \<Rightarrow> string option \<Rightarrow> (error + balance list) \<times> client \<times> string list" where
  "get_balance ev c addr ast =
     (case (if not_str addr then get_address ev c else (Inr (case addr of Some a \<Rightarrow> a | None \<Rightarrow> []), c)) of
        (Inl e, c1) \<Rightarrow> (Inl e, c1, [])
      | (Inr a, c1) \<Rightarrow>
          (case node_get_balance ev (thor_client c1) a of
             Inl e \<Rightarrow> (Inl e, c1, [a])
           | Inr r \<Rightarrow> (Inr (balances_loop ast (result r) []), c1, [a])))"

subsection \<open>Clients that calls can produce\<close>

text \<open>
  The calls that assign an attribute of the client. \<open>transfer\<close> evaluates
  \<open>get_private_key()\<close> and then \<open>get_address()\<close>; what follows are calls on the node
  client, which assign nothing on the client. The remaining methods
  (\<open>get_network\<close>, \<open>get_prefix\<close>, \<open>get_chain_id\<close>, the default URLs,
  \<open>get_transaction_data\<close>, \<open>get_fees\<close>) assign nothing.
\<close>

datatype call =
    PurgeClient
  | SetNetwork string
  | SetPhrase string
  | SetClientUrl string
  | GetPrivateKey
  | GetAddress
  | GetBalance "string option" "string option"
  | Transfer


text \<open>The client a call leaves behind, whether it returns or raises.\<close>

fun exec :: "env \<Rightarrow> client \<Rightarrow> call \<Rightarrow> client" where
  "exec ev c PurgeClient = purge_client c"
| "exec ev c (SetNetwork nw) = snd (set_network c nw)"
| "exec ev c (SetPhrase p) = snd (set_phrase ev c p)"
| "exec ev c (SetClientUrl u) = snd (set_client_url c u)"
| "exec ev c GetPrivateKey = snd (get_private_key ev c)"
| "exec ev c GetAddress = snd (get_address ev c)"
| "exec ev c (GetBalance addr ast) = fst (snd (get_balance ev c addr ast))"
| "exec ev c Transfer =
     (case get_private_key ev c of
        (Inl e, c1) \<Rightarrow> c1
      | (Inr k, c1) \<Rightarrow> snd (get_address ev c1))"

inductive reachable :: "env \<Rightarrow> client \<Rightarrow> bool" for ev :: env where
  constructed: "init ev ph nw cu eu = Inr c \<Longrightarrow> reachable ev c"
| called: "reachable ev c \<Longrightarrow> reachable ev (exec ev c x)"

subsection \<open>An example environment\<close>

text \<open>
  A node client that accepts one phrase, derives a fixed key and an address from the
  prefix, and reports two holdings.
\<close>

definition env0 :: env where
  "env0 = \<lparr>validate_phrase = (\<lambda>p. p = ''abandon about''),
           seed_to_privkey = (\<lambda>tc p. Inr [1, 2, 3]),
           privkey_to_address = (\<lambda>tc k. Inr (prefix tc @ ''1abc'')),
           node_get_balance = (\<lambda>tc a. Inr \<lparr>result = [\<lparr>denom = ''rune'', amount = ''100''\<rparr>,
                                                       \<lparr>denom = ''bnb'', amount = ''7''\<rparr>]\<rparr>)\<rparr>"

text \<open>The client \<open>Client('abandon about')\<close> constructs in that environment.\<close>

definition client0 :: client where
  "client0 = \<lparr>phrase = ''abandon about'', address = ''tthor1abc'', network = ''testnet'',
              private_key = Some [1, 2, 3], client_url = UrlDict get_default_client_url,
              explorer_url = ''https://testnet.thorchain.net'',
              thor_client = \<lparr>server = ''https://testnet.thornode.thorchain.info'', prefix = ''tthor'',
                              derive_path = ''m/44'/931'/0'/0/0'', chain_id = ''thorchain''\<rparr>\<rparr>"

text \<open>
  A second environment, whose node client derives a key only when its prefix is
  \<open>thor\<close>, and the client left by \<open>Client('')\<close>, \<open>set_phrase('abandon about')\<close> (which
  raises there, after storing the phrase) and \<open>set_network('mainnet')\<close>: a phrase and no key.
\<close>

definition env1 :: env where
  "env1 = env0\<lparr>seed_to_privkey :=
            (\<lambda>tc p. if prefix tc = ''thor'' then Inr [1, 2, 3] else Inl (Exception ''no key''))\<rparr>"

definition client1 :: client where
  "client1 = \<lparr>phrase = ''abandon about'', address = [], network = ''mainnet'',
              private_key = None, client_url = UrlDict get_default_client_url,
              explorer_url = ''https://testnet.thorchain.net'',
              thor_client = \<lparr>server = ''http://138.68.125.107:1317'', prefix = ''thor'',
                              derive_path = ''m/44'/931'/0'/0/0'', chain_id = ''thorchain''\<rparr>\<rparr>"

section \<open>Invariants of the client\<close>

text \<open>
  What every client produced by the constructor and the calls satisfies: its node client
  has the derivation path of \<open>get_new_thor_client\<close>, and without a phrase it has
  neither an address nor a private key.
\<close>

definition good :: "client \<Rightarrow> bool" where
  "good c \<longleftrightarrow> derive_path (thor_client c) = ''m/44'/931'/0'/0/0'' \<and>
     (phrase c = [] \<longrightarrow> address c = [] \<and> private_key c = None)"

text \<open>
  Every private key a client has cached is the key that a node client with that derivation
  path has derived from the stored phrase.
\<close>

definition derived :: "env \<Rightarrow> client \<Rightarrow> bool" where
  "derived ev c \<longleftrightarrow>
     (\<forall>k. private_key c = Some k \<longrightarrow>
        (\<exists>tc. derive_path tc = ''m/44'/931'/0'/0/0'' \<and> seed_to_privkey ev tc (phrase c) = Inr k))"

lemma get_new_thor_client_path:
  "get_new_thor_client c = Inr tc \<Longrightarrow> derive_path tc = ''m/44'/931'/0'/0/0''"
  by (auto simp: get_new_thor_client_def Let_def split: sum.splits)

lemma good_purge_client: "good c \<Longrightarrow> good (purge_client c)"
  by (simp add: good_def purge_client_def)

lemma good_set_network: "good c \<Longrightarrow> good (snd (set_network c nw))"
  by (auto simp: good_def set_network_def Let_def dest: get_new_thor_client_path split: sum.splits)

lemma good_set_client_url: "good c \<Longrightarrow> good (snd (set_client_url c u))"
  by (auto simp: good_def set_client_url_def Let_def dest: get_new_thor_client_path split: sum.splits)

lemma good_get_private_key: "good c \<Longrightarrow> good (snd (get_private_key ev c))"
  by (auto simp: good_def get_private_key_def split: sum.splits)

lemma good_get_address: "good c \<Longrightarrow> good (snd (get_address ev c))"
  by (auto simp: good_def get_address_def get_private_key_def Let_def split: sum.splits prod.splits if_splits)

lemma good_set_phrase: "good c \<Longrightarrow> good (snd (set_phrase ev c p))"
proof (cases "(phrase c = [] \<or> phrase c \<noteq> p) \<and> validate_phrase ev p")
  case True
  assume g: "good c"
  have "good (c\<lparr>phrase := p, private_key := None, address := []\<rparr>)"
    using g by (simp add: good_def)
  then show ?thesis using True by (simp add: set_phrase_def good_get_address)
next
  case False
  assume "good c"
  then show ?thesis using False by (auto simp: set_phrase_def good_get_address)
qed

lemma good_get_balance: "good c \<Longrightarrow> good (fst (snd (get_balance ev c addr ast)))"
proof -
  assume g: "good c"
  show ?thesis
  proof (cases "not_str addr")
    case True
    then show ?thesis using good_get_address [OF g, of ev]
      by (auto simp: get_balance_def split: prod.splits sum.splits)
  next
    case False
    then show ?thesis using g
      by (auto simp: get_balance_def split: prod.splits sum.splits)
  qed
qed

lemma good_exec: "good c \<Longrightarrow> good (exec ev c x)"
proof (cases x)
  case Transfer
  assume g: "good c"
  have "good (snd (get_address ev (snd (get_private_key ev c))))"
    by (rule good_get_address [OF good_get_private_key [OF g]])
  then show ?thesis using Transfer good_get_private_key [OF g, of ev]
    by (auto split: prod.splits sum.splits)
qed (simp_all add: good_purge_client good_set_network good_set_client_url
       good_get_private_key good_get_address good_set_phrase good_get_balance)

lemma init_urls_fields:
  "phrase (init_urls nw cu eu) = []" "address (init_urls nw cu eu) = []"
  "private_key (init_urls nw cu eu) = None" "network (init_urls nw cu eu) = nw"
  by (simp_all add: init_urls_def Let_def)

lemma init_cases:
  assumes "init ev ph nw cu eu = Inr c"
  shows "\<exists>c2. good c2 \<and> (c = c2 \<or> c = snd (set_phrase ev c2 ph))"
proof -
  from assms obtain tc where tc: "get_new_thor_client (init_urls nw cu eu) = Inr tc"
    by (auto simp: init_def Let_def split: sum.splits)
  let ?c2 = "(init_urls nw cu eu)\<lparr>thor_client := tc\<rparr>"
  have "good ?c2"
    using get_new_thor_client_path [OF tc] by (simp add: good_def init_urls_fields)
  moreover have "c = ?c2 \<or> c = snd (set_phrase ev ?c2 ph)"
    using assms tc by (auto simp: init_def Let_def split: sum.splits prod.splits if_splits)
  ultimately show ?thesis by blast
qed

lemma good_init: "init ev ph nw cu eu = Inr c \<Longrightarrow> good c"
  using init_cases good_set_phrase by blast

lemma reachable_good: "reachable ev c \<Longrightarrow> good c"
  by (induction rule: reachable.induct) (auto intro: good_init good_exec)

lemma derived_address: "derived ev (c\<lparr>address := a\<rparr>) = derived ev c"
  by (simp add: derived_def)

lemma derived_purge_client: "derived ev (purge_client c)"
  by (simp add: derived_def purge_client_def)

lemma derived_set_network: "derived ev c \<Longrightarrow> derived ev (snd (set_network c nw))"
  by (auto simp: derived_def set_network_def Let_def split: sum.splits)

lemma derived_set_client_url: "derived ev c \<Longrightarrow> derived ev (snd (set_client_url c u))"
  by (auto simp: derived_def set_client_url_def Let_def split: sum.splits)

lemma derived_get_private_key:
  "good c \<Longrightarrow> derived ev c \<Longrightarrow> derived ev (snd (get_private_key ev c))"
  by (auto simp: good_def derived_def get_private_key_def split: sum.splits)

lemma get_address_cases:
  "snd (get_address ev c) = c \<or> snd (get_address ev c) = snd (get_private_key ev c) \<or>
   (\<exists>a. snd (get_address ev c) = (snd (get_private_key ev c))\<lparr>address := a\<rparr>)"
  by (auto simp: get_address_def Let_def split: sum.splits prod.splits)

lemma derived_get_address:
  "good c \<Longrightarrow> derived ev c \<Longrightarrow> derived ev (snd (get_address ev c))"
  using get_address_cases [of ev c] derived_get_private_key [of c ev]
  by (auto simp: derived_address)

lemma derived_set_phrase:
  assumes g: "good c" and d: "derived ev c"
  shows "derived ev (snd (set_phrase ev c p))"
proof (cases "(phrase c = [] \<or> phrase c \<noteq> p) \<and> validate_phrase ev p")
  case True
  let ?c = "c\<lparr>phrase := p, private_key := None, address := []\<rparr>"
  have "good ?c" using g by (simp add: good_def)
  moreover have "derived ev ?c" by (simp add: derived_def)
  ultimately have "derived ev (snd (get_address ev ?c))" by (rule derived_get_address)
  then show ?thesis using True by (simp add: set_phrase_def)
next
  case False
  then show ?thesis using g d by (auto simp: set_phrase_def derived_get_address)
qed

lemma derived_get_balance:
  assumes g: "good c" and d: "derived ev c"
  shows "derived ev (fst (snd (get_balance ev c addr ast)))"
proof (cases "not_str addr")
  case True
  then show ?thesis using derived_get_address [OF g d]
    by (auto simp: get_balance_def split: prod.splits sum.splits)
next
  case False
  then show ?thesis using d
    by (auto simp: get_balance_def split: prod.splits sum.splits)
qed

lemma derived_exec:
  assumes g: "good c" and d: "derived ev c"
  shows "derived ev (exec ev c x)"
proof (cases x)
  case Transfer
  have "derived ev (snd (get_address ev (snd (get_private_key ev c))))"
    by (rule derived_get_address [OF good_get_private_key [OF g] derived_get_private_key [OF g d]])
  then show ?thesis using Transfer derived_get_private_key [OF g d]
    by (auto split: prod.splits sum.splits)
qed (simp_all add: derived_purge_client derived_set_network derived_set_client_url
       derived_get_private_key derived_get_address derived_set_phrase derived_get_balance g d)

lemma derived_init:
  assumes "init ev ph nw cu eu = Inr c"
  shows "derived ev c"
proof -
  from assms obtain tc where tc: "get_new_thor_client (init_urls nw cu eu) = Inr tc"
    by (auto simp: init_def Let_def split: sum.splits)
  let ?c2 = "(init_urls nw cu eu)\<lparr>thor_client := tc\<rparr>"
  have g: "good ?c2"
    using get_new_thor_client_path [OF tc] by (simp add: good_def init_urls_fields)
  have d: "derived ev ?c2" by (simp add: derived_def init_urls_fields)
  have "c = ?c2 \<or> c = snd (set_phrase ev ?c2 ph)"
    using assms tc by (auto simp: init_def Let_def split: sum.splits prod.splits if_splits)
  then show ?thesis using d derived_set_phrase [OF g d] by auto
qed

lemma reachable_derived: "reachable ev c \<Longrightarrow> derived ev c"
proof (induction rule: reachable.induct)
  case (constructed ph nw cu eu c)
  then show ?case by (rule derived_init)
next
  case (called c x)
  then show ?case by (intro derived_exec reachable_good)
qed

subsection \<open>The example client\<close>

lemma init_client0: "init env0 ''abandon about'' ''testnet'' None None = Inr client0"
  by (simp add: init_def init_urls_def unset_thor_client_def env0_def client0_def get_new_thor_client_def getitem_def
      get_default_client_url_def get_network_def get_prefix_def get_chain_id_def set_phrase_def
      get_address_def get_private_key_def key_bytes_def get_default_explorer_url_def Let_def)

lemma reachable_client0: "reachable env0 client0"
  by (rule reachable.constructed [OF init_client0])

lemma set_phrase_purged_client0:
  "set_phrase env0 (purge_client client0) ''abandon about'' = (Inr ''tthor1abc'', client0)"
  by (simp add: set_phrase_def purge_client_def env0_def client0_def get_address_def
      get_private_key_def key_bytes_def Let_def)

lemma reachable_purged_client0: "reachable env0 (purge_client client0)"
  using reachable.called [OF reachable_client0, of PurgeClient] by simp

lemma reachable_client1: "reachable env1 client1"
proof -
  have i: "init env1 [] ''testnet'' None None = Inr (init_urls ''testnet'' None None\<lparr>thor_client := thor_client client0\<rparr>)"
    by (simp add: init_def init_urls_def unset_thor_client_def client0_def get_new_thor_client_def getitem_def
      get_default_client_url_def get_network_def get_prefix_def get_chain_id_def Let_def)
  have e: "exec env1 (exec env1 (init_urls ''testnet'' None None\<lparr>thor_client := thor_client client0\<rparr>)
      (SetPhrase ''abandon about'')) (SetNetwork ''mainnet'') = client1"
    by (simp add: init_urls_def unset_thor_client_def client0_def client1_def env1_def env0_def
      set_phrase_def get_address_def get_private_key_def set_network_def get_new_thor_client_def getitem_def
      get_default_client_url_def get_network_def get_prefix_def get_chain_id_def get_default_explorer_url_def Let_def)
  from reachable.called [OF reachable.called [OF reachable.constructed [OF i]]] e
  show ?thesis by metis
qed

subsection \<open>The loop of the balances\<close>

lemma balances_loop_filter:
  "balances_loop ast cs acc =
   acc @ map (\<lambda>b. \<lparr>asset = denom b, amount = coin.amount b\<rparr>)
          (filter (\<lambda>b. not_str ast \<or> Some (denom b) = ast) cs)"
  by (induction cs arbitrary: acc) simp_all

subsection \<open>Calls on a purged client\<close>



section \<open>The claims\<close>

subsection \<open>C1: an invalid phrase is refused and changes nothing\<close>

text \<open>
  Claim C1. For a client whose phrase is unset or differs from the one handed in,
  \<open>set_phrase\<close> with a phrase that fails validation raises \<open>Exception("invalid phrase")\<close>
  and leaves the whole client, so the stored phrase, the cached private key and the cached
  address, as it was.
\<close>

theorem set_phrase_invalid:
  "phrase c = [] \<or> phrase c \<noteq> p \<Longrightarrow> \<not> validate_phrase ev p \<Longrightarrow>
   set_phrase ev c p = (Inl (Exception ''invalid phrase''), c)"
  by (simp add: set_phrase_def)

theorem set_phrase_invalid_witness:
  "(phrase client0 = [] \<or> phrase client0 \<noteq> ''abandon'') \<and> \<not> validate_phrase env0 ''abandon'' \<and>
   set_phrase env0 client0 ''abandon'' = (Inl (Exception ''invalid phrase''), client0)"
proof -
  have a: "phrase client0 = [] \<or> phrase client0 \<noteq> ''abandon''" by (simp add: client0_def)
  have b: "\<not> validate_phrase env0 ''abandon''" by (simp add: env0_def)
  show ?thesis using a b set_phrase_invalid [OF a b] by simp
qed

subsection \<open>C2: the prefix of an explicit network\<close>

text \<open>
  Claim C2 asks for \<open>tthor\<close> on \<open>testnet\<close> and \<open>thor\<close> otherwise, also for a network
  passed as an argument. With the argument \<open>'testnet'\<close> the method raises a
  \<open>NameError\<close> instead of returning \<open>tthor\<close>; without an argument it answers from the
  network of the client.
\<close>

theorem get_prefix_explicit_network:
  "get_prefix client0 (Some ''testnet'') = Inl (NameError ''network'') \<and>
   get_prefix client0 None = Inr ''tthor''"
  by (simp add: get_prefix_def client0_def)

subsection \<open>C3: the derivation path of the node client\<close>

text \<open>
  Claim C3. Every client the constructor and the calls produce holds a node client
  configured with the derivation path \<open>m/44'/931'/0'/0/0\<close>, and every node client it
  would construct anew has that path as well. When \<open>get_private_key\<close> derives, the key is
  what \<open>seed_to_privkey\<close> of that node client makes of the stored phrase; and a private
  key the client has cached is the key a node client with that path has derived from the
  stored phrase.
\<close>

theorem derive_path_of_node_client:
  assumes "reachable ev c"
  shows "derive_path (thor_client c) = ''m/44'/931'/0'/0/0'' \<and>
   (\<forall>tc. get_new_thor_client c = Inr tc \<longrightarrow> derive_path tc = ''m/44'/931'/0'/0/0'') \<and>
   (not_bytes (private_key c) \<and> phrase c \<noteq> [] \<longrightarrow>
      get_private_key ev c =
        (case seed_to_privkey ev (thor_client c) (phrase c) of
           Inl e \<Rightarrow> (Inl e, c)
         | Inr k \<Rightarrow> (Inr (Some k), c\<lparr>private_key := Some k\<rparr>))) \<and>
   (\<forall>k. private_key c = Some k \<longrightarrow>
      (\<exists>tc. derive_path tc = ''m/44'/931'/0'/0/0'' \<and> seed_to_privkey ev tc (phrase c) = Inr k))"
  using reachable_good [OF assms] reachable_derived [OF assms] get_new_thor_client_path [of c]
  by (simp add: good_def derived_def get_private_key_def)

theorem derive_path_of_node_client_witness:
  "reachable env1 client1 \<and>
   derive_path (thor_client client1) = ''m/44'/931'/0'/0/0'' \<and>
   get_new_thor_client client1 = Inr (thor_client client1) \<and>
   not_bytes (private_key client1) \<and> phrase client1 \<noteq> [] \<and>
   seed_to_privkey env1 (thor_client client1) (phrase client1) = Inr [1, 2, 3] \<and>
   get_private_key env1 client1 = (Inr (Some [1, 2, 3]), client1\<lparr>private_key := Some [1, 2, 3]\<rparr>)"
proof -
  have a: "get_new_thor_client client1 = Inr (thor_client client1)"
    by (simp add: client1_def get_new_thor_client_def getitem_def
      get_default_client_url_def get_network_def get_prefix_def get_chain_id_def)
  have b: "not_bytes (private_key client1) \<and> phrase client1 \<noteq> []"
    by (simp add: client1_def)
  have c: "seed_to_privkey env1 (thor_client client1) (phrase client1) = Inr [1, 2, 3]"
    by (simp add: client1_def env1_def)
  show ?thesis
    using a b c reachable_client1 derive_path_of_node_client [OF reachable_client1] by simp
qed


subsection \<open>C4: changing the network\<close>

text \<open>
  Claim C4 as stated, for every non-empty network, fails: the network \<open>'foo'\<close> has no
  entry among the default URLs, \<open>set_network\<close> raises \<open>KeyError\<close> after storing the
  network, and the cached address stays.
\<close>

theorem set_network_unknown_counterexample:
  "set_network client0 ''foo'' = (Inl (KeyError ''foo''), client0\<lparr>network := ''foo''\<rparr>) \<and>
   address (snd (set_network client0 ''foo'')) = ''tthor1abc''"
  by (simp add: set_network_def get_new_thor_client_def getitem_def get_default_client_url_def
      get_network_def client0_def)

text \<open>
  Claim C4, amended. For the networks \<open>testnet\<close> and \<open>mainnet\<close>, \<open>set_network\<close>
  returns, stores the network, replaces the node client by one for the default node URL
  and the prefix of that network, clears the cached address, and leaves the phrase and the
  cached private key unchanged; the attribute \<open>client_url\<close> is not assigned. For every
  other non-empty network it stores the network and raises \<open>KeyError\<close> of it, with
  nothing else changed.
\<close>

theorem set_network_by_default_url:
  "(nw = ''testnet'' \<or> nw = ''mainnet'' \<longrightarrow>
      set_network c nw =
        (Inr (), c\<lparr>network := nw,
                  thor_client := \<lparr>server = (if nw = ''testnet'' then ''https://testnet.thornode.thorchain.info''
                                             else ''http://138.68.125.107:1317''),
                                   prefix = (if nw = ''testnet'' then ''tthor'' else ''thor''),
                                   derive_path = ''m/44'/931'/0'/0/0'', chain_id = ''thorchain''\<rparr>,
                  address := []\<rparr>) \<and>
      address (snd (set_network c nw)) = [] \<and>
      phrase (snd (set_network c nw)) = phrase c \<and>
      private_key (snd (set_network c nw)) = private_key c \<and>
      client_url (snd (set_network c nw)) = client_url c) \<and>
   (nw \<noteq> [] \<and> nw \<noteq> ''testnet'' \<and> nw \<noteq> ''mainnet'' \<longrightarrow>
      set_network c nw = (Inl (KeyError nw), c\<lparr>network := nw\<rparr>))"
  by (auto simp: set_network_def get_new_thor_client_def getitem_def get_default_client_url_def
      get_network_def get_prefix_def get_chain_id_def)

theorem set_network_by_default_url_witness:
  "(''mainnet'' = ''testnet'' \<or> ''mainnet'' = ''mainnet'') \<and>
   fst (set_network client0 ''mainnet'') = Inr () \<and>
   server (thor_client (snd (set_network client0 ''mainnet''))) = ''http://138.68.125.107:1317'' \<and>
   address (snd (set_network client0 ''mainnet'')) = [] \<and>
   phrase (snd (set_network client0 ''mainnet'')) = ''abandon about'' \<and>
   ''chaosnet'' \<noteq> [] \<and> ''chaosnet'' \<noteq> ''testnet'' \<and> ''chaosnet'' \<noteq> ''mainnet'' \<and>
   set_network client0 ''chaosnet'' = (Inl (KeyError ''chaosnet''), client0\<lparr>network := ''chaosnet''\<rparr>)"
  using set_network_by_default_url [of "''mainnet''" client0]
    set_network_by_default_url [of "''chaosnet''" client0]
  by (simp add: client0_def)

subsection \<open>C5: when the key and the address are derived\<close>

text \<open>
  Claim C5 as stated fails: \<open>set_phrase\<close> ends with \<open>get_address()\<close>, so a client
  without key and address has both when \<open>set_phrase\<close> returns.
\<close>

theorem set_phrase_eager_counterexample:
  "private_key (purge_client client0) = None \<and> address (purge_client client0) = [] \<and>
   fst (set_phrase env0 (purge_client client0) ''abandon about'') = Inr ''tthor1abc'' \<and>
   private_key (snd (set_phrase env0 (purge_client client0) ''abandon about'')) = Some [1, 2, 3] \<and>
   address (snd (set_phrase env0 (purge_client client0) ''abandon about'')) = ''tthor1abc''"
  by (simp add: set_phrase_purged_client0) (simp add: purge_client_def client0_def)

text \<open>
  Claim C5, amended. A \<open>set_phrase\<close> that stores a new phrase and returns has derived the
  private key from that phrase and the address from that key, both with the node client of
  the client: on return the private key is cached, the address is cached, not empty, and
  is the value returned.
\<close>

theorem set_phrase_derives:
  assumes "phrase c = [] \<or> phrase c \<noteq> p" and "set_phrase ev c p = (Inr a, c')"
  shows "(\<exists>k. seed_to_privkey ev (thor_client c) p = Inr k \<and>
              privkey_to_address ev (thor_client c) k = Inr a \<and>
              c' = c\<lparr>phrase := p, private_key := Some k, address := a\<rparr>) \<and>
         a \<noteq> [] \<and> p \<noteq> [] \<and> validate_phrase ev p"
proof -
  let ?c = "c\<lparr>phrase := p, private_key := None, address := []\<rparr>"
  from assms have v: "validate_phrase ev p" and g: "get_address ev ?c = (Inr a, c')"
    by (auto simp: set_phrase_def split: if_splits)
  from g have p: "p \<noteq> []"
    by (auto simp: get_address_def get_private_key_def)
  from g p obtain k where k: "seed_to_privkey ev (thor_client c) p = Inr k"
    by (auto simp: get_address_def get_private_key_def split: sum.splits)
  from g p k have "privkey_to_address ev (thor_client c) k = Inr a \<and> a \<noteq> [] \<and>
      c' = c\<lparr>phrase := p, private_key := Some k, address := a\<rparr>"
    by (auto simp: get_address_def get_private_key_def key_bytes_def Let_def split: sum.splits if_splits)
  with v p k show ?thesis by blast
qed

theorem set_phrase_derives_witness:
  "(phrase (purge_client client0) = [] \<or> phrase (purge_client client0) \<noteq> ''abandon about'') \<and>
   set_phrase env0 (purge_client client0) ''abandon about'' = (Inr ''tthor1abc'', client0) \<and>
   seed_to_privkey env0 (thor_client (purge_client client0)) ''abandon about'' = Inr [1, 2, 3] \<and>
   privkey_to_address env0 (thor_client (purge_client client0)) [1, 2, 3] = Inr ''tthor1abc'' \<and>
   validate_phrase env0 ''abandon about''"
proof -
  have a: "phrase (purge_client client0) = [] \<or> phrase (purge_client client0) \<noteq> ''abandon about''"
    by (simp add: purge_client_def)
  show ?thesis
    using a set_phrase_purged_client0 set_phrase_derives [OF a set_phrase_purged_client0]
    by (auto simp: env0_def)
qed

subsection \<open>C6: a balance without a phrase\<close>

text \<open>
  Claim C6. On a client without a phrase, \<open>get_balance\<close> without an address raises
  \<open>Exception("Phrase not set")\<close>, changes nothing on the client and has asked the node
  nothing.
\<close>

theorem get_balance_phrase_not_set:
  assumes "reachable ev c" and "phrase c = []" and "not_str addr"
  shows "get_balance ev c addr ast = (Inl (Exception ''Phrase not set''), c, [])"
proof -
  from reachable_good [OF assms(1)] assms(2)
  have "address c = []" and "private_key c = None" by (simp_all add: good_def)
  with assms(2) have "get_address ev c = (Inl (Exception ''Phrase not set''), c)"
    by (simp add: get_address_def get_private_key_def)
  with assms(3) show ?thesis by (simp add: get_balance_def)
qed

theorem get_balance_phrase_not_set_witness:
  "reachable env0 (purge_client client0) \<and> phrase (purge_client client0) = [] \<and> not_str None \<and>
   get_balance env0 (purge_client client0) None (Some ''rune'') =
     (Inl (Exception ''Phrase not set''), purge_client client0, [])"
proof -
  have p: "phrase (purge_client client0) = []" by (simp add: purge_client_def)
  have n: "not_str None" by simp
  show ?thesis
    using reachable_purged_client0 p n
      get_balance_phrase_not_set [OF reachable_purged_client0 p n, of "Some ''rune''"]
    by simp
qed

subsection \<open>C7: the balances of an asset\<close>

text \<open>
  Claim C7 as stated, for every asset argument, fails: the empty string is an asset
  argument that selects nothing by equality, and \<open>get_balance\<close> returns every entry of
  the reply for it.
\<close>

theorem get_balance_empty_asset_counterexample:
  "node_get_balance env0 (thor_client client0) ''tthor1abc'' =
     Inr \<lparr>result = [\<lparr>denom = ''rune'', amount = ''100''\<rparr>, \<lparr>denom = ''bnb'', amount = ''7''\<rparr>]\<rparr> \<and>
   get_balance env0 client0 (Some ''tthor1abc'') (Some []) =
     (Inr [\<lparr>asset = ''rune'', amount = ''100''\<rparr>, \<lparr>asset = ''bnb'', amount = ''7''\<rparr>], client0, [''tthor1abc''])"
  by (simp add: get_balance_def env0_def)

text \<open>
  Claim C7, amended. When the node answers the query for the address given, or for the
  address of the client when none is given, \<open>get_balance\<close> with a non-empty asset
  returns exactly the entries of the reply whose denomination is that asset, each as a
  pair of asset and amount, in the order of the reply; with the empty string for the asset,
  as with none, it returns every entry of the reply; and it returns the empty list when
  the reply has no entries, whatever the asset argument.
\<close>

theorem get_balance_filters:
  assumes "(addr = Some a \<and> a \<noteq> [] \<and> c1 = c) \<or> (not_str addr \<and> get_address ev c = (Inr a, c1))"
    and "node_get_balance ev (thor_client c1) a = Inr r"
  shows "(d \<noteq> [] \<longrightarrow>
            get_balance ev c addr (Some d) =
              (Inr (map (\<lambda>b. \<lparr>asset = denom b, amount = coin.amount b\<rparr>)
                     (filter (\<lambda>b. denom b = d) (result r))), c1, [a])) \<and>
         (not_str ast \<longrightarrow>
            get_balance ev c addr ast =
              (Inr (map (\<lambda>b. \<lparr>asset = denom b, amount = coin.amount b\<rparr>) (result r)), c1, [a])) \<and>
         (result r = [] \<longrightarrow> get_balance ev c addr ast = (Inr [], c1, [a]))"
proof -
  have "get_balance ev c addr x = (Inr (balances_loop x (result r) []), c1, [a])" for x
    using assms by (auto simp: get_balance_def)
  then show ?thesis by (simp add: balances_loop_filter)
qed

theorem get_balance_filters_witness:
  "((Some ''tthor1abc'' = Some ''tthor1abc'' \<and> ''tthor1abc'' \<noteq> [] \<and> client0 = client0) \<or>
    (not_str (Some ''tthor1abc'') \<and> get_address env0 client0 = (Inr ''tthor1abc'', client0))) \<and>
   ''bnb'' \<noteq> [] \<and>
   get_balance env0 client0 (Some ''tthor1abc'') (Some ''bnb'') =
     (Inr [\<lparr>asset = ''bnb'', amount = ''7''\<rparr>], client0, [''tthor1abc'']) \<and>
   not_str (Some []) \<and>
   get_balance env0 client0 (Some ''tthor1abc'') (Some []) =
     (Inr [\<lparr>asset = ''rune'', amount = ''100''\<rparr>, \<lparr>asset = ''bnb'', amount = ''7''\<rparr>], client0, [''tthor1abc'']) \<and>
   result \<lparr>result = []\<rparr> = [] \<and>
   get_balance (env0\<lparr>node_get_balance := (\<lambda>tc a. Inr \<lparr>result = []\<rparr>)\<rparr>) client0 (Some ''tthor1abc'') None =
     (Inr [], client0, [''tthor1abc''])"
proof -
  have a: "(Some ''tthor1abc'' = Some ''tthor1abc'' \<and> ''tthor1abc'' \<noteq> [] \<and> client0 = client0) \<or>
    (not_str (Some ''tthor1abc'') \<and> get_address ev client0 = (Inr ''tthor1abc'', client0))" for ev
    by simp
  have b: "node_get_balance env0 (thor_client client0) ''tthor1abc'' =
     Inr \<lparr>result = [\<lparr>denom = ''rune'', amount = ''100''\<rparr>, \<lparr>denom = ''bnb'', amount = ''7''\<rparr>]\<rparr>"
    by (simp add: env0_def)
  have e: "node_get_balance (env0\<lparr>node_get_balance := (\<lambda>tc a. Inr \<lparr>result = []\<rparr>)\<rparr>)
      (thor_client client0) ''tthor1abc'' = Inr \<lparr>result = []\<rparr>"
    by simp
  show ?thesis
    using get_balance_filters [OF a b, of "''bnb''" "Some []"]
      get_balance_filters [OF a e, of "''bnb''" None]
    by simp
qed


subsection \<open>C9: after a purge\<close>



subsection \<open>C10: the same phrase again\<close>

text \<open>
  Claim C10 as stated fails: after \<open>set_network\<close> the phrase is still set and the
  cached address is empty, and \<open>set_phrase\<close> with the same phrase then derives the
  address anew and caches it.
\<close>

theorem set_phrase_again_counterexample:
  "phrase (snd (set_network client0 ''mainnet'')) = ''abandon about'' \<and>
   address (snd (set_network client0 ''mainnet'')) = [] \<and>
   set_phrase env0 (snd (set_network client0 ''mainnet'')) ''abandon about'' =
     (Inr ''thor1abc'', (snd (set_network client0 ''mainnet''))\<lparr>address := ''thor1abc''\<rparr>)"
  by (simp add: set_network_def get_new_thor_client_def getitem_def get_default_client_url_def
      get_network_def get_prefix_def get_chain_id_def client0_def set_phrase_def get_address_def
      get_private_key_def key_bytes_def env0_def Let_def)

text \<open>
  Claim C10, amended. For a client whose phrase is set and whose address is cached,
  \<open>set_phrase\<close> with the same phrase leaves the client as it is and returns the cached
  address. Whether or not the address is cached, the call is \<open>get_address\<close> and nothing
  more: the validation has no part in it, and the phrase stays.
\<close>

theorem set_phrase_same:
  assumes "phrase c \<noteq> []" and "phrase c = p"
  shows "(address c \<noteq> [] \<longrightarrow> set_phrase ev c p = (Inr (address c), c)) \<and>
         set_phrase ev c p = get_address ev c \<and>
         set_phrase (ev\<lparr>validate_phrase := v\<rparr>) c p = set_phrase ev c p \<and>
         phrase (snd (set_phrase ev c p)) = phrase c"
proof -
  have s: "set_phrase e c p = get_address e c" for e
    using assms by (simp add: set_phrase_def)
  have k: "get_private_key (ev\<lparr>validate_phrase := v\<rparr>) c = get_private_key ev c"
    by (simp add: get_private_key_def)
  have g: "get_address (ev\<lparr>validate_phrase := v\<rparr>) c = get_address ev c"
    by (simp add: get_address_def k split: prod.splits sum.splits)
  have f: "phrase (snd (get_address ev c)) = phrase c"
    by (auto simp: get_address_def get_private_key_def Let_def split: sum.splits prod.splits)
  have a: "address c \<noteq> [] \<longrightarrow> get_address ev c = (Inr (address c), c)"
    by (simp add: get_address_def)
  show ?thesis using s g f a by simp
qed

theorem set_phrase_same_witness:
  "phrase client0 \<noteq> [] \<and> phrase client0 = ''abandon about'' \<and> address client0 \<noteq> [] \<and>
   set_phrase env0 client0 ''abandon about'' = (Inr ''tthor1abc'', client0) \<and>
   set_phrase (env0\<lparr>validate_phrase := (\<lambda>p. False)\<rparr>) client0 ''abandon about'' = (Inr ''tthor1abc'', client0)"
proof -
  have a: "phrase client0 \<noteq> []" and b: "phrase client0 = ''abandon about''"
    and c: "address client0 = ''tthor1abc''"
    by (simp_all add: client0_def)
  show ?thesis
    using a b c set_phrase_same [OF a b, of env0 "\<lambda>p. False"] by simp
qed

end
